theory Spec2Isabelle
  imports Main
begin

section \<open>The Turnstile token gate (server/middleware/turnstile.ts)\<close>

text \<open>
  The middleware intercepts every request.  It talks to two outside services: a Redis
  cache (client created by \<^verbatim>\<open>createClient\<close>, operations \<^verbatim>\<open>connect\<close>,
  \<^verbatim>\<open>get\<close>, \<^verbatim>\<open>setEx\<close>) and the Cloudflare siteverify endpoint (one
  \<^verbatim>\<open>fetch\<close>).  Both are modelled as an environment that answers each call, and
  every call attempted is appended to a trace, so that "no Verifier call" and "no cache
  write" are statements about the trace.  JavaScript exceptions are values of a sum type
  (\<open>Inl\<close> is a throw), and every \<^verbatim>\<open>try/catch\<close> of the source is a case
  distinction on it.  Calls to \<^verbatim>\<open>console\<close> are left out.  A request is
  handled at one instant \<open>now\<close>, in seconds.
\<close>

subsection \<open>JavaScript values\<close>

text \<open>A value parsed from JSON; an object is the list of its own properties.\<close>

datatype json =
    JNull
  | JBool bool
  | JNum int
  | JStr string
  | JArr "json list"
  | JObj "(string \<times> json) list"

text \<open>
  The payload handed to \<^verbatim>\<open>createError\<close>: a status code, a message and the
  \<^verbatim>\<open>data\<close> object, which is what the client receives as structured error body.
\<close>

record h3_error =
  statusCode :: nat
  message :: string
  data :: "(string \<times> string) list"

datatype exn =
    H3Error h3_error
  | RedisError
  | FetchError
  | SyntaxError
  | TypeError

text \<open>
  A value of type \<^verbatim>\<open>string | undefined\<close> is a \<open>string option\<close>.  It is truthy
  when it is a non-empty string; \<^verbatim>\<open>a || b\<close> is \<open>a\<close> when \<open>a\<close> is truthy and
  \<open>b\<close> otherwise (whatever \<open>b\<close> is).
\<close>

definition truthy :: "string option \<Rightarrow> bool" where
  "truthy v = (case v of None \<Rightarrow> False | Some s \<Rightarrow> s \<noteq> [])"

definition js_or :: "string option \<Rightarrow> string option \<Rightarrow> string option" where
  "js_or a b = (if truthy a then a else b)"

text \<open>
  Reading a property: on \<^verbatim>\<open>null\<close> it throws a TypeError, on an object it is the
  property or \<^verbatim>\<open>undefined\<close>, and on a boolean, number, string or array no property
  of the names used here exists.
\<close>

definition js_get_property :: "json \<Rightarrow> string \<Rightarrow> exn + json option" where
  "js_get_property v name =
     (case v of
        JNull \<Rightarrow> Inl TypeError
      | JObj props \<Rightarrow> Inr (map_of props name)
      | _ \<Rightarrow> Inr None)"

subsection \<open>Configuration, requests, responses\<close>

text \<open>The two environment variables, read once when the module is loaded.\<close>

record config =
  TURNSTILE_SECRET_KEY :: "string option"
  REDIS_URL :: "string option"

definition TOKEN_CACHE_DURATION :: nat where
  "TOKEN_CACHE_DURATION = 10 * 60 * 1000"

definition SITEVERIFY_URL :: string where
  "SITEVERIFY_URL = ''https://challenges.cloudflare.com/turnstile/v0/siteverify''"

text \<open>
  An event as the middleware sees it: the request headers under their lower-case names,
  and the address the platform reports (\<^verbatim>\<open>getRequestIP\<close>).
\<close>

record request =
  headers :: "string \<rightharpoonup> string"
  requestIP :: "string option"

definition getHeader :: "request \<Rightarrow> string \<Rightarrow> string option" where
  "getHeader event name = headers event name"

definition getRequestIP :: "request \<Rightarrow> string option" where
  "getRequestIP event = requestIP event"

text \<open>
  An HTTP response of the Verifier: the status and the body as \<^verbatim>\<open>response.json()\<close>
  parses it (\<open>None\<close> when the body is not JSON, where the call throws).
\<close>

record response =
  status :: nat
  body :: "json option"

definition response_json :: "response \<Rightarrow> exn + json" where
  "response_json r = (case body r of None \<Rightarrow> Inl SyntaxError | Some j \<Rightarrow> Inr j)"

subsection \<open>The environment and the state\<close>

datatype redis_client = RedisClient "string option"

datatype event =
    RedisConnect
  | RedisGet string
  | RedisSetEx string nat string
  | Fetch string "(string \<times> string) list" "exn + response"

text \<open>
  What the outside does while one request is handled: the time in seconds, whether each
  cache operation succeeds, and the Verifier's answer to a POST of the given form fields.
  Every combination is allowed, so a theorem over all environments covers every behaviour
  of the Redis client library and of the network.
\<close>

record env =
  now :: nat
  createClient_ok :: bool
  connect_ok :: bool
  get_ok :: bool
  setEx_ok :: bool
  fetch_result :: "string \<Rightarrow> (string \<times> string) list \<Rightarrow> exn + response"

text \<open>
  The state that outlives a request: the module variable \<^verbatim>\<open>redisClient\<close>, the
  content of the Redis server (each key with its value and the time at which it expires)
  and the trace of calls made so far.
\<close>

record world =
  redisClient :: "redis_client option"
  store :: "string \<rightharpoonup> (string \<times> nat)"
  trace :: "event list"

definition emit :: "event \<Rightarrow> world \<Rightarrow> world" where
  "emit e s = s\<lparr>trace := trace s @ [e]\<rparr>"

text \<open>
  Redis itself, as the specification describes it: an entry written with a time to live
  is read back until that time has passed and is absent afterwards.
\<close>

definition redis_lookup :: "(string \<rightharpoonup> (string \<times> nat)) \<Rightarrow> nat \<Rightarrow> string \<Rightarrow> string option" where
  "redis_lookup m t k =
     (case m k of
        None \<Rightarrow> None
      | Some (v, expires) \<Rightarrow> if t < expires then Some v else None)"

definition createClient :: "env \<Rightarrow> string option \<Rightarrow> exn + redis_client" where
  "createClient e url = (if createClient_ok e then Inr (RedisClient url) else Inl RedisError)"

definition redis_connect :: "env \<Rightarrow> world \<Rightarrow> (exn + unit) \<times> world" where
  "redis_connect e s =
     (if connect_ok e then (Inr (), emit RedisConnect s)
      else (Inl RedisError, emit RedisConnect s))"

definition redis_get :: "env \<Rightarrow> string \<Rightarrow> world \<Rightarrow> (exn + string option) \<times> world" where
  "redis_get e k s =
     (if get_ok e then (Inr (redis_lookup (store s) (now e) k), emit (RedisGet k) s)
      else (Inl RedisError, emit (RedisGet k) s))"

definition redis_setEx :: "env \<Rightarrow> string \<Rightarrow> nat \<Rightarrow> string \<Rightarrow> world \<Rightarrow> (exn + unit) \<times> world" where
  "redis_setEx e k ttl v s =
     (if setEx_ok e
      then (Inr (), emit (RedisSetEx k ttl v) (s\<lparr>store := (store s)(k \<mapsto> (v, now e + ttl))\<rparr>))
      else (Inl RedisError, emit (RedisSetEx k ttl v) s))"

definition fetch :: "env \<Rightarrow> string \<Rightarrow> (string \<times> string) list \<Rightarrow> world \<Rightarrow> (exn + response) \<times> world" where
  "fetch e url params s =
     (fetch_result e url params, emit (Fetch url params (fetch_result e url params)) s)"

subsection \<open>The functions of the module\<close>

text \<open>
  \<^verbatim>\<open>initRedis\<close>: the variable is assigned as soon as the client is created, before
  \<^verbatim>\<open>connect\<close>; a failure of either is caught and the function returns null.
  Registering the error listener only logs and is left out.
\<close>

definition initRedis :: "config \<Rightarrow> env \<Rightarrow> world \<Rightarrow> redis_client option \<times> world" where
  "initRedis cfg e s =
     (case redisClient s of
        Some c \<Rightarrow> (Some c, s)
      | None \<Rightarrow>
          (case createClient e (REDIS_URL cfg) of
             Inl err \<Rightarrow> (None, s)
           | Inr c \<Rightarrow>
               (case redis_connect e (s\<lparr>redisClient := Some c\<rparr>) of
                  (Inl err, s') \<Rightarrow> (None, s')
                | (Inr u, s') \<Rightarrow> (Some c, s'))))"

text \<open>The form fields of the siteverify call (the \<^verbatim>\<open>URLSearchParams\<close> of the source).\<close>

definition siteverify_params :: "string \<Rightarrow> string \<Rightarrow> string option \<Rightarrow> (string \<times> string) list" where
  "siteverify_params secret token remoteip =
     [(''secret'', secret), (''response'', token)] @
     (case remoteip of
        None \<Rightarrow> []
      | Some ip \<Rightarrow> if ip \<noteq> [] then [(''remoteip'', ip)] else [])"

definition validateTurnstileToken ::
  "config \<Rightarrow> env \<Rightarrow> string \<Rightarrow> string option \<Rightarrow> world \<Rightarrow> bool \<times> world" where
  "validateTurnstileToken cfg e token remoteip s =
     (case TURNSTILE_SECRET_KEY cfg of
        None \<Rightarrow> (False, s)
      | Some secret \<Rightarrow>
          if secret = [] then (False, s)
          else
            (case fetch e SITEVERIFY_URL (siteverify_params secret token remoteip) s of
               (Inl err, s') \<Rightarrow> (False, s')
             | (Inr resp, s') \<Rightarrow>
                 (case response_json resp of
                    Inl err \<Rightarrow> (False, s')
                  | Inr result \<Rightarrow>
                      (case js_get_property result ''success'' of
                         Inl err \<Rightarrow> (False, s')
                       | Inr v \<Rightarrow> (v = Some (JBool True), s')))))"

definition cache_key :: "string \<Rightarrow> string" where
  "cache_key token = ''turnstile:'' @ token"

definition isTokenValid :: "env \<Rightarrow> string \<Rightarrow> world \<Rightarrow> bool \<times> world" where
  "isTokenValid e token s =
     (case redisClient s of
        None \<Rightarrow> (False, s)
      | Some c \<Rightarrow>
          (case redis_get e (cache_key token) s of
             (Inl err, s') \<Rightarrow> (False, s')
           | (Inr cached, s') \<Rightarrow> (cached = Some ''valid'', s')))"

text \<open>
  \<^verbatim>\<open>storeValidToken\<close>: the time to live is \<^verbatim>\<open>TOKEN_CACHE_DURATION / 1000\<close>;
  the division is exact, so the division of natural numbers gives the same 600.
\<close>

definition storeValidToken :: "env \<Rightarrow> string \<Rightarrow> world \<Rightarrow> world" where
  "storeValidToken e token s =
     (case redisClient s of
        None \<Rightarrow> s
      | Some c \<Rightarrow>
          (case redis_setEx e (cache_key token) (TOKEN_CACHE_DURATION div 1000) ''valid'' s of
             (Inl err, s') \<Rightarrow> s'
           | (Inr u, s') \<Rightarrow> s'))"

text \<open>The two errors the handler throws.\<close>

definition missing_token_error :: h3_error where
  "missing_token_error =
     \<lparr>statusCode = 401, message = ''Authentication required'',
      data = [(''error'', ''Authentication required''),
              (''message'', ''X-Turnstile-Token header is required'')]\<rparr>"

definition invalid_token_error :: h3_error where
  "invalid_token_error =
     \<lparr>statusCode = 401, message = ''Invalid token'',
      data = [(''error'', ''Invalid token''),
              (''message'', ''Turnstile token validation failed'')]\<rparr>"

text \<open>The address passed to the Verifier: a chain of \<^verbatim>\<open>||\<close>, left to right.\<close>

definition remoteip_of :: "request \<Rightarrow> string option" where
  "remoteip_of event =
     js_or (js_or (getRequestIP event) (getHeader event ''cf-connecting-ip''))
           (getHeader event ''x-forwarded-for'')"

text \<open>
  The handler.  \<open>Inr ()\<close> is a normal return, after which the request goes on to the
  routes (allow); \<open>Inl\<close> is a throw.
\<close>

definition handler :: "config \<Rightarrow> env \<Rightarrow> request \<Rightarrow> world \<Rightarrow> (exn + unit) \<times> world" where
  "handler cfg e event s =
     (if \<not> truthy (TURNSTILE_SECRET_KEY cfg) \<or> \<not> truthy (REDIS_URL cfg) then (Inr (), s)
      else
        (case initRedis cfg e s of
           (client, s1) \<Rightarrow>
             (case getHeader event ''x-turnstile-token'' of
                None \<Rightarrow> (Inl (H3Error missing_token_error), s1)
              | Some token \<Rightarrow>
                  if token = [] then (Inl (H3Error missing_token_error), s1)
                  else
                    (case isTokenValid e token s1 of
                       (isValid, s2) \<Rightarrow>
                         if \<not> isValid then
                           (case validateTurnstileToken cfg e token (remoteip_of event) s2 of
                              (isValidFromCloudflare, s3) \<Rightarrow>
                                if \<not> isValidFromCloudflare
                                then (Inl (H3Error invalid_token_error), s3)
                                else (Inr (), storeValidToken e token s3))
                         else (Inr (), s2)))))"

subsection \<open>Runs of the gate\<close>

text \<open>
  A run handles a list of requests one after the other, each in the environment it
  meets, and passes the state on.
\<close>

fun run :: "config \<Rightarrow> (env \<times> request) list \<Rightarrow> world \<Rightarrow> world" where
  "run cfg [] s = s"
| "run cfg ((e, event) # rest) s = run cfg rest (snd (handler cfg e event s))"

subsection \<open>Reading the trace\<close>

text \<open>The calls made to the Verifier, and the writes sent to the cache, in order.\<close>

fun verifier_calls :: "event list \<Rightarrow> (string \<times> (string \<times> string) list) list" where
  "verifier_calls [] = []"
| "verifier_calls (Fetch url params r # es) = (url, params) # verifier_calls es"
| "verifier_calls (RedisConnect # es) = verifier_calls es"
| "verifier_calls (RedisGet k # es) = verifier_calls es"
| "verifier_calls (RedisSetEx k ttl v # es) = verifier_calls es"

fun cache_writes :: "event list \<Rightarrow> (string \<times> nat \<times> string) list" where
  "cache_writes [] = []"
| "cache_writes (RedisSetEx k ttl v # es) = (k, ttl, v) # cache_writes es"
| "cache_writes (RedisConnect # es) = cache_writes es"
| "cache_writes (RedisGet k # es) = cache_writes es"
| "cache_writes (Fetch url params r # es) = cache_writes es"

text \<open>
  What the code takes as a successful verification: the call returned a response whose
  body parses to a JSON object with the property \<open>success\<close> equal to \<open>true\<close>.
\<close>

definition body_reports_success :: "exn + response \<Rightarrow> bool" where
  "body_reports_success r =
     (case r of
        Inl err \<Rightarrow> False
      | Inr resp \<Rightarrow>
          (case body resp of
             Some (JObj props) \<Rightarrow> map_of props ''success'' = Some (JBool True)
           | _ \<Rightarrow> False))"

text \<open>
  The specification's reading of a successful verification, in its own words: the
  response is 2xx and its body is a JSON object whose \<open>success\<close> field is \<open>true\<close>.
\<close>

definition spec_verifier_success :: "exn + response \<Rightarrow> bool" where
  "spec_verifier_success r =
     (case r of
        Inl err \<Rightarrow> False
      | Inr resp \<Rightarrow>
          200 \<le> status resp \<and> status resp \<le> 299 \<and>
          (case body resp of
             Some (JObj props) \<Rightarrow> map_of props ''success'' = Some (JBool True)
           | _ \<Rightarrow> False))"

text \<open>The specification's "first non-empty value wins".\<close>

fun first_non_empty :: "string option list \<Rightarrow> string option" where
  "first_non_empty [] = None"
| "first_non_empty (v # vs) = (if truthy v then v else first_non_empty vs)"

text \<open>
  A cache write is justified by the event just before it when that event is a siteverify
  call carrying the token behind the written key, and the call reported success.
\<close>

definition justifies :: "event \<Rightarrow> string \<Rightarrow> bool" where
  "justifies prev k =
     (case prev of
        Fetch url params r \<Rightarrow>
          url = SITEVERIFY_URL \<and> body_reports_success r \<and>
          (case map_of params ''response'' of
             None \<Rightarrow> False
           | Some token \<Rightarrow> k = cache_key token)
      | _ \<Rightarrow> False)"

fun justified_from :: "event option \<Rightarrow> event list \<Rightarrow> bool" where
  "justified_from prev [] = True"
| "justified_from prev (ev # es) =
     ((case ev of
         RedisSetEx k ttl v \<Rightarrow> (case prev of None \<Rightarrow> False | Some p \<Rightarrow> justifies p k)
       | _ \<Rightarrow> True) \<and>
      justified_from (Some ev) es)"

definition writes_justified :: "event list \<Rightarrow> bool" where
  "writes_justified t = justified_from None t"

text \<open>The cache cannot be reached: every operation that goes over the network fails.\<close>

definition cache_unreachable :: "env \<Rightarrow> bool" where
  "cache_unreachable e = (\<not> connect_ok e \<and> \<not> get_ok e \<and> \<not> setEx_ok e)"

subsection \<open>Concrete inputs\<close>

definition cfg0 :: config where
  "cfg0 = \<lparr>TURNSTILE_SECRET_KEY = Some ''s3cret'', REDIS_URL = Some ''redis://cache''\<rparr>"

definition cfg_off :: config where
  "cfg_off = \<lparr>TURNSTILE_SECRET_KEY = None, REDIS_URL = Some ''redis://cache''\<rparr>"

definition world0 :: world where
  "world0 = \<lparr>redisClient = None, store = Map.empty, trace = []\<rparr>"

definition world_cached :: world where
  "world_cached =
     \<lparr>redisClient = Some (RedisClient (Some ''redis://cache'')),
      store = [''turnstile:abc'' \<mapsto> (''valid'', 700)], trace = []\<rparr>"

definition resp_ok :: response where
  "resp_ok = \<lparr>status = 200, body = Some (JObj [(''success'', JBool True)])\<rparr>"

definition resp_fail :: response where
  "resp_fail = \<lparr>status = 200, body = Some (JObj [(''success'', JBool False)])\<rparr>"

definition resp_500 :: response where
  "resp_500 = \<lparr>status = 500, body = Some (JObj [(''success'', JBool True)])\<rparr>"

definition env_up :: "nat \<Rightarrow> response \<Rightarrow> env" where
  "env_up t r =
     \<lparr>now = t, createClient_ok = True, connect_ok = True, get_ok = True, setEx_ok = True,
      fetch_result = (\<lambda>url params. Inr r)\<rparr>"

definition env_down :: "nat \<Rightarrow> response \<Rightarrow> env" where
  "env_down t r =
     \<lparr>now = t, createClient_ok = True, connect_ok = False, get_ok = False, setEx_ok = False,
      fetch_result = (\<lambda>url params. Inr r)\<rparr>"

definition req_token :: "string \<Rightarrow> request" where
  "req_token token = \<lparr>headers = [''x-turnstile-token'' \<mapsto> token], requestIP = None\<rparr>"

definition req_plain :: request where
  "req_plain = \<lparr>headers = Map.empty, requestIP = Some ''10.0.0.9''\<rparr>"

definition req_all_ips :: request where
  "req_all_ips =
     \<lparr>headers = [''x-turnstile-token'' \<mapsto> ''abc'', ''cf-connecting-ip'' \<mapsto> ''2.2.2.2'',
                 ''x-forwarded-for'' \<mapsto> ''3.3.3.3''],
      requestIP = Some ''1.1.1.1''\<rparr>"

section \<open>What each function does, in closed form\<close>

lemmas prims =
  emit_def createClient_def redis_connect_def redis_get_def redis_setEx_def fetch_def

lemma initRedis_eq:
  "initRedis cfg e s =
     (case redisClient s of
        Some c \<Rightarrow> (Some c, s)
      | None \<Rightarrow>
          if createClient_ok e
          then (if connect_ok e then Some (RedisClient (REDIS_URL cfg)) else None,
                s\<lparr>redisClient := Some (RedisClient (REDIS_URL cfg)),
                  trace := trace s @ [RedisConnect]\<rparr>)
          else (None, s))"
  by (simp add: initRedis_def prims split: option.splits)

lemma isTokenValid_eq:
  "isTokenValid e token s =
     (case redisClient s of
        None \<Rightarrow> (False, s)
      | Some c \<Rightarrow>
          (get_ok e \<and> redis_lookup (store s) (now e) (cache_key token) = Some ''valid'',
           s\<lparr>trace := trace s @ [RedisGet (cache_key token)]\<rparr>))"
  by (simp add: isTokenValid_def prims split: option.splits)

lemma validateTurnstileToken_eq:
  "validateTurnstileToken cfg e token ip s =
     (case TURNSTILE_SECRET_KEY cfg of
        None \<Rightarrow> (False, s)
      | Some secret \<Rightarrow>
          if secret = [] then (False, s)
          else
            (body_reports_success
               (fetch_result e SITEVERIFY_URL (siteverify_params secret token ip)),
             s\<lparr>trace := trace s @
                  [Fetch SITEVERIFY_URL (siteverify_params secret token ip)
                     (fetch_result e SITEVERIFY_URL (siteverify_params secret token ip))]\<rparr>))"
  by (simp add: validateTurnstileToken_def prims body_reports_success_def response_json_def
      js_get_property_def split: option.splits sum.splits json.splits)

lemma storeValidToken_eq:
  "storeValidToken e token s =
     (case redisClient s of
        None \<Rightarrow> s
      | Some c \<Rightarrow>
          if setEx_ok e
          then s\<lparr>store := (store s)(cache_key token \<mapsto> (''valid'', now e + 600)),
                 trace := trace s @ [RedisSetEx (cache_key token) 600 ''valid'']\<rparr>
          else s\<lparr>trace := trace s @ [RedisSetEx (cache_key token) 600 ''valid'']\<rparr>)"
  by (simp add: storeValidToken_def prims TOKEN_CACHE_DURATION_def split: option.splits)

lemmas gate_eqs =
  handler_def initRedis_eq isTokenValid_eq validateTurnstileToken_eq storeValidToken_eq
  truthy_def

lemma verifier_calls_append:
  "verifier_calls (xs @ ys) = verifier_calls xs @ verifier_calls ys"
  by (induction xs rule: verifier_calls.induct) simp_all

lemma cache_writes_append:
  "cache_writes (xs @ ys) = cache_writes xs @ cache_writes ys"
  by (induction xs rule: cache_writes.induct) simp_all

lemma siteverify_params_first_non_empty:
  "siteverify_params secret token (remoteip_of event) =
     [(''secret'', secret), (''response'', token)] @
     (case first_non_empty [getRequestIP event, getHeader event ''cf-connecting-ip'',
                            getHeader event ''x-forwarded-for''] of
        None \<Rightarrow> []
      | Some ip \<Rightarrow> [(''remoteip'', ip)])"
  by (simp add: siteverify_params_def remoteip_of_def js_or_def truthy_def
      split: option.splits)

lemma siteverify_params_response:
  "map_of (siteverify_params secret token ip) ''response'' = Some token"
  by (simp add: siteverify_params_def)

lemma miss_calls_verifier:
  assumes "TURNSTILE_SECRET_KEY cfg = Some secret" and "secret \<noteq> []"
    and "truthy (REDIS_URL cfg)"
    and "getHeader event ''x-turnstile-token'' = Some token" and "token \<noteq> []"
    and "(redisClient s = None \<and> \<not> createClient_ok e) \<or> \<not> get_ok e \<or>
         redis_lookup (store s) (now e) (cache_key token) \<noteq> Some ''valid''"
  shows "verifier_calls (trace (snd (handler cfg e event s))) =
           verifier_calls (trace s) @
           [(SITEVERIFY_URL, siteverify_params secret token (remoteip_of event))]"
  using assms
  by (auto simp add: gate_eqs verifier_calls_append split: option.splits)

subsection \<open>The trace of a run\<close>

lemma justified_from_append:
  "justified_from p (xs @ ys) =
     (justified_from p xs \<and> justified_from (if xs = [] then p else Some (last xs)) ys)"
  by (induction xs arbitrary: p) auto

lemma handler_new_events:
  "\<exists>new. trace (snd (handler cfg e event s)) = trace s @ new \<and> (\<forall>p. justified_from p new)"
  by (auto simp add: gate_eqs justifies_def siteverify_params_response split: option.splits)

lemma handler_keeps_justified:
  assumes "writes_justified (trace s)"
  shows "writes_justified (trace (snd (handler cfg e event s)))"
proof -
  obtain new where n: "trace (snd (handler cfg e event s)) = trace s @ new"
    and j: "\<forall>p. justified_from p new"
    using handler_new_events by blast
  from assms j show ?thesis
    unfolding writes_justified_def n justified_from_append by blast
qed

lemma run_keeps_justified:
  "writes_justified (trace s) \<Longrightarrow> writes_justified (trace (run cfg rs s))"
  by (induction rs arbitrary: s) (auto simp: handler_keeps_justified)

lemma handler_store_change:
  assumes "store (snd (handler cfg e event s)) \<noteq> store s"
  shows "\<exists>secret token.
           TURNSTILE_SECRET_KEY cfg = Some secret \<and>
           getHeader event ''x-turnstile-token'' = Some token \<and>
           body_reports_success
             (fetch_result e SITEVERIFY_URL
                (siteverify_params secret token (remoteip_of event))) \<and>
           store (snd (handler cfg e event s)) =
             (store s)(cache_key token \<mapsto> (''valid'', now e + 600))"
  using assms
  by (auto simp add: gate_eqs split: option.splits if_splits)

section \<open>The claims\<close>

text \<open>
  In every statement below \<open>s\<close> is the state before the request, \<open>e\<close> the
  environment the request meets, \<open>fst (handler cfg e event s)\<close> the outcome
  (\<open>Inr ()\<close>: the request is allowed) and \<open>snd (handler cfg e event s)\<close> the
  state afterwards.  "The Verifier reports success" is \<open>body_reports_success\<close> of the
  answer to the siteverify call for the token; the theorem of claim C6 shows that this is
  what \<open>validateTurnstileToken\<close> returns.
\<close>

text \<open>
  Claim C1.  With the gate configured and the cache usable (a client exists or can be
  created, and the write succeeds), a request whose token has no valid entry in the cache
  and for which the Verifier reports success is allowed, and the gate writes the entry
  with key \<open>turnstile:\<close> followed by the token, value \<open>valid\<close> and a TTL of 600
  seconds (one \<open>setEx\<close> with these arguments; the entry expires at \<open>now + 600\<close>).
  Any later request with the same token that reads the cache before the entry expires is
  allowed, and no call to the Verifier is added to the trace.
\<close>

theorem verified_token_cached_and_reused:
  assumes "TURNSTILE_SECRET_KEY cfg = Some secret" and "secret \<noteq> []"
    and "truthy (REDIS_URL cfg)"
    and "getHeader event ''x-turnstile-token'' = Some token" and "token \<noteq> []"
    and "redis_lookup (store s) (now e) (cache_key token) \<noteq> Some ''valid''"
    and "redisClient s \<noteq> None \<or> createClient_ok e" and "setEx_ok e"
    and "body_reports_success
           (fetch_result e SITEVERIFY_URL (siteverify_params secret token (remoteip_of event)))"
  shows "fst (handler cfg e event s) = Inr ()
         \<and> store (snd (handler cfg e event s)) =
             (store s)(''turnstile:'' @ token \<mapsto> (''valid'', now e + 600))
         \<and> cache_writes (trace (snd (handler cfg e event s))) =
             cache_writes (trace s) @ [(''turnstile:'' @ token, 600, ''valid'')]
         \<and> (\<forall>e2 event2.
               getHeader event2 ''x-turnstile-token'' = Some token \<and> get_ok e2 \<and>
               now e2 < now e + 600 \<longrightarrow>
               fst (handler cfg e2 event2 (snd (handler cfg e event s))) = Inr () \<and>
               verifier_calls
                 (trace (snd (handler cfg e2 event2 (snd (handler cfg e event s))))) =
                 verifier_calls (trace (snd (handler cfg e event s))))"
  using assms
  by (auto simp add: gate_eqs cache_key_def redis_lookup_def verifier_calls_append
      cache_writes_append split: option.splits)

theorem verified_token_cached_and_reused_witness:
  "redis_lookup (store world0) (now (env_up 100 resp_ok)) (cache_key ''abc'') \<noteq> Some ''valid'' \<and>
   body_reports_success (fetch_result (env_up 100 resp_ok) SITEVERIFY_URL
        (siteverify_params ''s3cret'' ''abc'' (remoteip_of (req_token ''abc'')))) \<and>
   fst (handler cfg0 (env_up 100 resp_ok) (req_token ''abc'') world0) = Inr () \<and>
   store (snd (handler cfg0 (env_up 100 resp_ok) (req_token ''abc'') world0)) =
     [''turnstile:abc'' \<mapsto> (''valid'', 700)] \<and>
   cache_writes (trace (snd (handler cfg0 (env_up 100 resp_ok) (req_token ''abc'') world0))) =
     [(''turnstile:abc'', 600, ''valid'')] \<and>
   fst (handler cfg0 (env_up 699 resp_fail) (req_token ''abc'')
          (snd (handler cfg0 (env_up 100 resp_ok) (req_token ''abc'') world0))) = Inr () \<and>
   verifier_calls (trace (snd (handler cfg0 (env_up 699 resp_fail) (req_token ''abc'')
          (snd (handler cfg0 (env_up 100 resp_ok) (req_token ''abc'') world0))))) =
     verifier_calls (trace (snd (handler cfg0 (env_up 100 resp_ok) (req_token ''abc'') world0)))"
proof -
  have h1: "TURNSTILE_SECRET_KEY cfg0 = Some ''s3cret''" and h2: "''s3cret'' \<noteq> []"
    and h3: "truthy (REDIS_URL cfg0)"
    by (simp_all add: cfg0_def truthy_def)
  have h4: "getHeader (req_token ''abc'') ''x-turnstile-token'' = Some ''abc''"
    and h5: "''abc'' \<noteq> []"
    by (simp_all add: req_token_def getHeader_def)
  have h6: "redis_lookup (store world0) (now (env_up 100 resp_ok)) (cache_key ''abc'')
              \<noteq> Some ''valid''"
    by (simp add: world0_def redis_lookup_def)
  have h7: "redisClient world0 \<noteq> None \<or> createClient_ok (env_up 100 resp_ok)"
    and h8: "setEx_ok (env_up 100 resp_ok)"
    by (simp_all add: env_up_def)
  have h9: "body_reports_success (fetch_result (env_up 100 resp_ok) SITEVERIFY_URL
        (siteverify_params ''s3cret'' ''abc'' (remoteip_of (req_token ''abc''))))"
    by (simp add: env_up_def resp_ok_def body_reports_success_def)
  have w: "store world0 = Map.empty" "trace world0 = []" "now (env_up 100 resp_ok) = 100"
    "now (env_up 699 resp_fail) = 699" "get_ok (env_up 699 resp_fail)"
    by (simp_all add: world0_def env_up_def)
  show ?thesis
    using h4 h6 h9 verified_token_cached_and_reused [OF h1 h2 h3 h4 h5 h6 h7 h8 h9]
    by (simp add: w)
qed

text \<open>
  Claim C2.  A request carrying a token for which the cache returns an unexpired
  \<open>valid\<close> entry (a client exists or can be created, the read succeeds, and the entry
  is there at the time of the request) is allowed, and the Verifier is not called: the
  Verifier calls of the trace are those made before the request.  This holds whatever the
  configuration is.
\<close>

theorem cache_hit_allows_without_verifier:
  assumes "getHeader event ''x-turnstile-token'' = Some token" and "token \<noteq> []"
    and "redisClient s \<noteq> None \<or> createClient_ok e"
    and "get_ok e"
    and "redis_lookup (store s) (now e) (cache_key token) = Some ''valid''"
  shows "fst (handler cfg e event s) = Inr ()
         \<and> verifier_calls (trace (snd (handler cfg e event s))) = verifier_calls (trace s)"
  using assms
  by (auto simp add: gate_eqs verifier_calls_append split: option.splits)

theorem cache_hit_allows_without_verifier_witness:
  "getHeader (req_token ''abc'') ''x-turnstile-token'' = Some ''abc'' \<and>
   get_ok (env_up 650 resp_fail) \<and>
   redis_lookup (store world_cached) (now (env_up 650 resp_fail)) (cache_key ''abc'') =
     Some ''valid'' \<and>
   fst (handler cfg0 (env_up 650 resp_fail) (req_token ''abc'') world_cached) = Inr () \<and>
   verifier_calls
     (trace (snd (handler cfg0 (env_up 650 resp_fail) (req_token ''abc'') world_cached))) = []"
proof -
  have h1: "getHeader (req_token ''abc'') ''x-turnstile-token'' = Some ''abc''"
    by (simp add: req_token_def getHeader_def)
  have h2: "''abc'' \<noteq> []" by simp
  have h3: "redisClient world_cached \<noteq> None \<or> createClient_ok (env_up 650 resp_fail)"
    by (simp add: world_cached_def)
  have h4: "get_ok (env_up 650 resp_fail)" by (simp add: env_up_def)
  have h5: "redis_lookup (store world_cached) (now (env_up 650 resp_fail)) (cache_key ''abc'')
              = Some ''valid''"
    by (simp add: world_cached_def env_up_def redis_lookup_def cache_key_def)
  have t: "trace world_cached = []" by (simp add: world_cached_def)
  show ?thesis
    using h1 h4 h5 cache_hit_allows_without_verifier [OF h1 h2 h3 h4 h5, of cfg0]
    by (simp add: t)
qed

text \<open>
  Claim C3.  With the gate configured, a request whose token has no valid entry in the
  cache and for which the Verifier does not report success (it answers with a failure,
  with a body of another shape, or the call or the parsing throws) is rejected with status
  401 and the body \<open>error: Invalid token\<close>, \<open>message: Turnstile token validation
  failed\<close>; the content of the cache is unchanged and no write is sent to it.
\<close>

theorem failed_verification_rejected_not_cached:
  assumes "TURNSTILE_SECRET_KEY cfg = Some secret" and "secret \<noteq> []"
    and "truthy (REDIS_URL cfg)"
    and "getHeader event ''x-turnstile-token'' = Some token" and "token \<noteq> []"
    and "redis_lookup (store s) (now e) (cache_key token) \<noteq> Some ''valid''"
    and "\<not> body_reports_success
            (fetch_result e SITEVERIFY_URL (siteverify_params secret token (remoteip_of event)))"
  shows "fst (handler cfg e event s) =
           Inl (H3Error \<lparr>statusCode = 401, message = ''Invalid token'',
                  data = [(''error'', ''Invalid token''),
                          (''message'', ''Turnstile token validation failed'')]\<rparr>)
         \<and> store (snd (handler cfg e event s)) = store s
         \<and> cache_writes (trace (snd (handler cfg e event s))) = cache_writes (trace s)"
  using assms
  by (auto simp add: gate_eqs invalid_token_error_def cache_writes_append
      split: option.splits)

theorem failed_verification_rejected_not_cached_witness:
  "redis_lookup (store world0) (now (env_up 5 resp_fail)) (cache_key ''abc'') \<noteq> Some ''valid'' \<and>
   \<not> body_reports_success (fetch_result (env_up 5 resp_fail) SITEVERIFY_URL
        (siteverify_params ''s3cret'' ''abc'' (remoteip_of (req_token ''abc'')))) \<and>
   fst (handler cfg0 (env_up 5 resp_fail) (req_token ''abc'') world0) =
     Inl (H3Error \<lparr>statusCode = 401, message = ''Invalid token'',
            data = [(''error'', ''Invalid token''),
                    (''message'', ''Turnstile token validation failed'')]\<rparr>) \<and>
   store (snd (handler cfg0 (env_up 5 resp_fail) (req_token ''abc'') world0)) = Map.empty \<and>
   cache_writes (trace (snd (handler cfg0 (env_up 5 resp_fail) (req_token ''abc'') world0))) = []"
proof -
  have h1: "TURNSTILE_SECRET_KEY cfg0 = Some ''s3cret''" and h2: "''s3cret'' \<noteq> []"
    and h3: "truthy (REDIS_URL cfg0)"
    by (simp_all add: cfg0_def truthy_def)
  have h4: "getHeader (req_token ''abc'') ''x-turnstile-token'' = Some ''abc''"
    and h5: "''abc'' \<noteq> []"
    by (simp_all add: req_token_def getHeader_def)
  have h6: "redis_lookup (store world0) (now (env_up 5 resp_fail)) (cache_key ''abc'')
              \<noteq> Some ''valid''"
    by (simp add: world0_def redis_lookup_def)
  have h7: "\<not> body_reports_success (fetch_result (env_up 5 resp_fail) SITEVERIFY_URL
        (siteverify_params ''s3cret'' ''abc'' (remoteip_of (req_token ''abc''))))"
    by (simp add: env_up_def resp_fail_def body_reports_success_def)
  have w: "store world0 = Map.empty" "trace world0 = []" by (simp_all add: world0_def)
  show ?thesis
    using h6 h7 failed_verification_rejected_not_cached [OF h1 h2 h3 h4 h5 h6 h7]
    by (simp add: w)
qed

text \<open>
  Claim C4.  With the gate configured, a request with no \<open>x-turnstile-token\<close> header is
  rejected with status 401 and the body \<open>error: Authentication required\<close>,
  \<open>message: X-Turnstile-Token header is required\<close>, in every environment and every
  state of the cache.  Nothing but the connection attempt of \<open>initRedis\<close> has happened:
  no read, no write, no Verifier call.
\<close>

theorem missing_token_rejected:
  assumes "truthy (TURNSTILE_SECRET_KEY cfg)" and "truthy (REDIS_URL cfg)"
    and "getHeader event ''x-turnstile-token'' = None"
  shows "fst (handler cfg e event s) =
           Inl (H3Error \<lparr>statusCode = 401, message = ''Authentication required'',
                  data = [(''error'', ''Authentication required''),
                          (''message'', ''X-Turnstile-Token header is required'')]\<rparr>)
         \<and> snd (handler cfg e event s) = snd (initRedis cfg e s)
         \<and> store (snd (handler cfg e event s)) = store s
         \<and> verifier_calls (trace (snd (handler cfg e event s))) = verifier_calls (trace s)
         \<and> cache_writes (trace (snd (handler cfg e event s))) = cache_writes (trace s)"
  using assms
  by (simp add: gate_eqs missing_token_error_def verifier_calls_append cache_writes_append
      split: option.splits)

theorem missing_token_rejected_witness:
  "truthy (TURNSTILE_SECRET_KEY cfg0) \<and> truthy (REDIS_URL cfg0) \<and>
   getHeader req_plain ''x-turnstile-token'' = None \<and>
   fst (handler cfg0 (env_up 0 resp_ok) req_plain world_cached) =
     Inl (H3Error \<lparr>statusCode = 401, message = ''Authentication required'',
            data = [(''error'', ''Authentication required''),
                    (''message'', ''X-Turnstile-Token header is required'')]\<rparr>)"
proof -
  have h1: "truthy (TURNSTILE_SECRET_KEY cfg0)" and h2: "truthy (REDIS_URL cfg0)"
    by (simp_all add: cfg0_def truthy_def)
  have h3: "getHeader req_plain ''x-turnstile-token'' = None"
    by (simp add: req_plain_def getHeader_def)
  show ?thesis
    using h1 h2 h3 missing_token_rejected [OF h1 h2 h3, of "env_up 0 resp_ok" world_cached]
    by blast
qed

text \<open>
  Claim C5.  Invariant of every run of the gate.  In the trace, every write to the cache
  comes directly after a siteverify call that carried the token behind the written key and
  that reported success; this holds after any list of requests, in any environments, from
  any state whose trace has the property (the empty trace has it).  And for each single
  request: if the content of the cache differs afterwards, then the Verifier reported
  success for the request's token and the only change is the entry of that token.
\<close>

theorem cache_written_only_after_success:
  "(writes_justified (trace s) \<longrightarrow> writes_justified (trace (run cfg rs s))) \<and>
   (store (snd (handler cfg e event s)) \<noteq> store s \<longrightarrow>
      (\<exists>secret token.
           TURNSTILE_SECRET_KEY cfg = Some secret \<and>
           getHeader event ''x-turnstile-token'' = Some token \<and>
           body_reports_success
             (fetch_result e SITEVERIFY_URL
                (siteverify_params secret token (remoteip_of event))) \<and>
           store (snd (handler cfg e event s)) =
             (store s)(cache_key token \<mapsto> (''valid'', now e + 600))))"
  using run_keeps_justified handler_store_change by blast

theorem cache_written_only_after_success_witness:
  "writes_justified (trace world0) \<and>
   store (snd (handler cfg0 (env_up 0 resp_ok) (req_token ''abc'') world0)) \<noteq> store world0 \<and>
   writes_justified
     (trace (run cfg0 [(env_up 0 resp_ok, req_token ''abc''), (env_up 5 resp_fail, req_token ''xyz'')]
               world0)) \<and>
   (\<exists>secret token.
       TURNSTILE_SECRET_KEY cfg0 = Some secret \<and>
       getHeader (req_token ''abc'') ''x-turnstile-token'' = Some token \<and>
       body_reports_success
         (fetch_result (env_up 0 resp_ok) SITEVERIFY_URL
            (siteverify_params secret token (remoteip_of (req_token ''abc'')))) \<and>
       store (snd (handler cfg0 (env_up 0 resp_ok) (req_token ''abc'') world0)) =
         (store world0)(cache_key token \<mapsto> (''valid'', now (env_up 0 resp_ok) + 600)))"
proof -
  have h1: "writes_justified (trace world0)"
    by (simp add: world0_def writes_justified_def)
  have h2: "store (snd (handler cfg0 (env_up 0 resp_ok) (req_token ''abc'') world0))
              \<noteq> store world0"
    by (simp add: gate_eqs cfg0_def env_up_def resp_ok_def req_token_def world0_def
        getHeader_def redis_lookup_def body_reports_success_def)
  show ?thesis
    using h1 h2
      cache_written_only_after_success [of world0 cfg0
        "[(env_up 0 resp_ok, req_token ''abc''), (env_up 5 resp_fail, req_token ''xyz'')]"
        "env_up 0 resp_ok" "req_token ''abc''"]
    by blast
qed

text \<open>
  Claim C6, as amended.  The verification counts as successful exactly when a secret is
  configured, the call returns a response, and the body of the response parses to a JSON
  object whose \<open>success\<close> property is the boolean \<open>true\<close>.  A call that throws, a
  body that is not JSON, \<open>null\<close>, a value that is not an object, and an object without
  \<open>success: true\<close> are failures.  The status of the response is not looked at: changing
  it changes nothing.
\<close>

theorem verification_succeeds_iff_body_success:
  "fst (validateTurnstileToken cfg e token ip s) =
     (\<exists>secret. TURNSTILE_SECRET_KEY cfg = Some secret \<and> secret \<noteq> [] \<and>
        body_reports_success
          (fetch_result e SITEVERIFY_URL (siteverify_params secret token ip)))
   \<and> body_reports_success (Inr (resp\<lparr>status := n\<rparr>)) = body_reports_success (Inr resp)
   \<and> body_reports_success (Inr resp) =
       (\<exists>props. body resp = Some (JObj props) \<and> map_of props ''success'' = Some (JBool True))
   \<and> \<not> body_reports_success (Inl err)"
  by (auto simp add: validateTurnstileToken_eq body_reports_success_def
      split: option.splits json.splits)

theorem verification_succeeds_iff_body_success_witness:
  "fst (validateTurnstileToken cfg0 (env_up 0 resp_ok) ''abc'' None world0) = True \<and>
   fst (validateTurnstileToken cfg0 (env_up 0 resp_fail) ''abc'' None world0) = False"
  using verification_succeeds_iff_body_success [of cfg0 "env_up 0 resp_ok" "''abc''" None world0]
    verification_succeeds_iff_body_success [of cfg0 "env_up 0 resp_fail" "''abc''" None world0]
  by (simp add: cfg0_def env_up_def resp_ok_def resp_fail_def body_reports_success_def)

text \<open>
  Claim C6 as the specification states it fails: a response with status 500 whose body is
  the object \<open>success: true\<close> is not a success in the specification's reading, and the
  code accepts it.
\<close>

theorem non_2xx_success_body_accepted:
  "status resp_500 = 500 \<and>
   fetch_result (env_up 0 resp_500) SITEVERIFY_URL (siteverify_params ''s3cret'' ''abc'' None)
     = Inr resp_500 \<and>
   \<not> spec_verifier_success (Inr resp_500) \<and>
   fst (validateTurnstileToken cfg0 (env_up 0 resp_500) ''abc'' None world0) = True"
  by (simp add: validateTurnstileToken_eq cfg0_def env_up_def resp_500_def
      body_reports_success_def spec_verifier_success_def)

text \<open>
  Claim C7.  If the secret or the cache URL is absent (undefined or empty), the handler
  returns at once: every request is allowed, with or without a token header, and the
  state is the one before the request, so nothing was connected, read, written or
  verified.
\<close>

theorem unconfigured_gate_passes_through:
  "\<not> truthy (TURNSTILE_SECRET_KEY cfg) \<or> \<not> truthy (REDIS_URL cfg) \<Longrightarrow>
   handler cfg e event s = (Inr (), s)"
  by (simp add: handler_def)

theorem unconfigured_gate_passes_through_witness:
  "\<not> truthy (TURNSTILE_SECRET_KEY cfg_off) \<and>
   getHeader req_plain ''x-turnstile-token'' = None \<and>
   handler cfg_off (env_up 0 resp_fail) req_plain world0 = (Inr (), world0)"
proof -
  have h: "\<not> truthy (TURNSTILE_SECRET_KEY cfg_off) \<or> \<not> truthy (REDIS_URL cfg_off)"
    by (simp add: cfg_off_def truthy_def)
  have g: "getHeader req_plain ''x-turnstile-token'' = None"
    by (simp add: req_plain_def getHeader_def)
  show ?thesis
    using h g unconfigured_gate_passes_through [OF h, of "env_up 0 resp_fail" req_plain world0]
    by (simp add: cfg_off_def truthy_def)
qed

text \<open>
  Claim C8.  When the cache cannot be reached (connecting, reading and writing all fail),
  a request whose token the Verifier reports as valid is still allowed and the failed
  write changes nothing in the cache; a later request with the same token, with the cache
  still unreachable or reachable but without an entry that was there before, calls the
  Verifier again.  And in every environment, state and configuration the outcome of a
  request is one of three: allow, the 401 missing-token error, the 401 invalid-token
  error; no failure of the cache or of the Verifier escapes as another error.
\<close>

theorem unreachable_cache_is_silent:
  "(TURNSTILE_SECRET_KEY cfg = Some secret \<and> secret \<noteq> [] \<and> truthy (REDIS_URL cfg) \<and>
    getHeader event ''x-turnstile-token'' = Some token \<and> token \<noteq> [] \<and>
    cache_unreachable e \<and>
    body_reports_success
      (fetch_result e SITEVERIFY_URL (siteverify_params secret token (remoteip_of event)))
    \<longrightarrow>
      fst (handler cfg e event s) = Inr () \<and>
      store (snd (handler cfg e event s)) = store s \<and>
      (\<forall>e2 event2.
         getHeader event2 ''x-turnstile-token'' = Some token \<and>
         (cache_unreachable e2 \<or>
          redis_lookup (store s) (now e2) (cache_key token) \<noteq> Some ''valid'') \<longrightarrow>
         verifier_calls (trace (snd (handler cfg e2 event2 (snd (handler cfg e event s))))) =
           verifier_calls (trace (snd (handler cfg e event s))) @
           [(SITEVERIFY_URL, siteverify_params secret token (remoteip_of event2))]))
   \<and>
   (fst (handler cfg e event s) = Inr () \<or>
    fst (handler cfg e event s) =
      Inl (H3Error \<lparr>statusCode = 401, message = ''Authentication required'',
             data = [(''error'', ''Authentication required''),
                     (''message'', ''X-Turnstile-Token header is required'')]\<rparr>) \<or>
    fst (handler cfg e event s) =
      Inl (H3Error \<lparr>statusCode = 401, message = ''Invalid token'',
             data = [(''error'', ''Invalid token''),
                     (''message'', ''Turnstile token validation failed'')]\<rparr>))"
proof (intro conjI impI)
  show "fst (handler cfg e event s) = Inr () \<or>
    fst (handler cfg e event s) =
      Inl (H3Error \<lparr>statusCode = 401, message = ''Authentication required'',
             data = [(''error'', ''Authentication required''),
                     (''message'', ''X-Turnstile-Token header is required'')]\<rparr>) \<or>
    fst (handler cfg e event s) =
      Inl (H3Error \<lparr>statusCode = 401, message = ''Invalid token'',
             data = [(''error'', ''Invalid token''),
                     (''message'', ''Turnstile token validation failed'')]\<rparr>)"
    by (simp add: gate_eqs missing_token_error_def invalid_token_error_def
        split: option.splits)
next
  assume a: "TURNSTILE_SECRET_KEY cfg = Some secret \<and> secret \<noteq> [] \<and> truthy (REDIS_URL cfg) \<and>
    getHeader event ''x-turnstile-token'' = Some token \<and> token \<noteq> [] \<and>
    cache_unreachable e \<and>
    body_reports_success
      (fetch_result e SITEVERIFY_URL (siteverify_params secret token (remoteip_of event)))"
  then show "fst (handler cfg e event s) = Inr ()"
    by (auto simp add: gate_eqs cache_unreachable_def split: option.splits)
  from a show unchanged: "store (snd (handler cfg e event s)) = store s"
    by (auto simp add: gate_eqs cache_unreachable_def split: option.splits)
  show "\<forall>e2 event2.
         getHeader event2 ''x-turnstile-token'' = Some token \<and>
         (cache_unreachable e2 \<or>
          redis_lookup (store s) (now e2) (cache_key token) \<noteq> Some ''valid'') \<longrightarrow>
         verifier_calls (trace (snd (handler cfg e2 event2 (snd (handler cfg e event s))))) =
           verifier_calls (trace (snd (handler cfg e event s))) @
           [(SITEVERIFY_URL, siteverify_params secret token (remoteip_of event2))]"
  proof (intro allI impI)
    fix e2 event2
    assume b: "getHeader event2 ''x-turnstile-token'' = Some token \<and>
         (cache_unreachable e2 \<or>
          redis_lookup (store s) (now e2) (cache_key token) \<noteq> Some ''valid'')"
    have miss: "(redisClient (snd (handler cfg e event s)) = None \<and> \<not> createClient_ok e2) \<or>
        \<not> get_ok e2 \<or>
        redis_lookup (store (snd (handler cfg e event s))) (now e2) (cache_key token)
          \<noteq> Some ''valid''"
      using b unchanged by (auto simp: cache_unreachable_def)
    from a b show "verifier_calls
           (trace (snd (handler cfg e2 event2 (snd (handler cfg e event s))))) =
           verifier_calls (trace (snd (handler cfg e event s))) @
           [(SITEVERIFY_URL, siteverify_params secret token (remoteip_of event2))]"
      by (intro miss_calls_verifier [OF _ _ _ _ _ miss]) simp_all
  qed
qed

theorem unreachable_cache_is_silent_witness:
  "cache_unreachable (env_down 0 resp_ok) \<and>
   fst (handler cfg0 (env_down 0 resp_ok) (req_token ''abc'') world0) = Inr () \<and>
   store (snd (handler cfg0 (env_down 0 resp_ok) (req_token ''abc'') world0)) = store world0 \<and>
   verifier_calls
     (trace (snd (handler cfg0 (env_down 9 resp_ok) (req_token ''abc'')
                    (snd (handler cfg0 (env_down 0 resp_ok) (req_token ''abc'') world0))))) =
     verifier_calls (trace (snd (handler cfg0 (env_down 0 resp_ok) (req_token ''abc'') world0))) @
     [(SITEVERIFY_URL, siteverify_params ''s3cret'' ''abc'' (remoteip_of (req_token ''abc'')))]"
proof -
  have h: "TURNSTILE_SECRET_KEY cfg0 = Some ''s3cret'' \<and> ''s3cret'' \<noteq> [] \<and>
      truthy (REDIS_URL cfg0) \<and>
      getHeader (req_token ''abc'') ''x-turnstile-token'' = Some ''abc'' \<and> ''abc'' \<noteq> [] \<and>
      cache_unreachable (env_down 0 resp_ok) \<and>
      body_reports_success
        (fetch_result (env_down 0 resp_ok) SITEVERIFY_URL
           (siteverify_params ''s3cret'' ''abc'' (remoteip_of (req_token ''abc''))))"
    by (simp add: cfg0_def truthy_def req_token_def getHeader_def cache_unreachable_def
        env_down_def resp_ok_def body_reports_success_def)
  have h2: "getHeader (req_token ''abc'') ''x-turnstile-token'' = Some ''abc'' \<and>
      (cache_unreachable (env_down 9 resp_ok) \<or>
       redis_lookup (store world0) (now (env_down 9 resp_ok)) (cache_key ''abc'')
         \<noteq> Some ''valid'')"
    by (simp add: req_token_def getHeader_def cache_unreachable_def env_down_def)
  show ?thesis
    using h h2
      unreachable_cache_is_silent [of cfg0 "''s3cret''" "req_token ''abc''" "''abc''"
        "env_down 0 resp_ok" world0]
    by blast
qed

text \<open>
  Claim C9.  On a cache miss (no client, a failed read, or no valid entry) the gate calls
  the Verifier once, with the fields \<open>secret\<close> and \<open>response\<close> and, as \<open>remoteip\<close>,
  the first non-empty value among the platform's request IP, the \<open>cf-connecting-ip\<close>
  header and the \<open>x-forwarded-for\<close> header, in this order.  When the platform IP is
  non-empty it is the one sent, whatever the two headers hold; when none of the three is
  non-empty the field \<open>remoteip\<close> is left out.
\<close>

theorem remoteip_priority:
  assumes "TURNSTILE_SECRET_KEY cfg = Some secret" and "secret \<noteq> []"
    and "truthy (REDIS_URL cfg)"
    and "getHeader event ''x-turnstile-token'' = Some token" and "token \<noteq> []"
    and "(redisClient s = None \<and> \<not> createClient_ok e) \<or> \<not> get_ok e \<or>
         redis_lookup (store s) (now e) (cache_key token) \<noteq> Some ''valid''"
  shows "verifier_calls (trace (snd (handler cfg e event s))) =
           verifier_calls (trace s) @
           [(SITEVERIFY_URL,
             [(''secret'', secret), (''response'', token)] @
             (case first_non_empty [getRequestIP event, getHeader event ''cf-connecting-ip'',
                                    getHeader event ''x-forwarded-for''] of
                None \<Rightarrow> []
              | Some ip \<Rightarrow> [(''remoteip'', ip)]))]
         \<and> (\<forall>ip. getRequestIP event = Some ip \<and> ip \<noteq> [] \<longrightarrow>
               verifier_calls (trace (snd (handler cfg e event s))) =
                 verifier_calls (trace s) @
                 [(SITEVERIFY_URL,
                   [(''secret'', secret), (''response'', token), (''remoteip'', ip)])])
         \<and> (\<not> truthy (getRequestIP event) \<and> \<not> truthy (getHeader event ''cf-connecting-ip'') \<and>
            \<not> truthy (getHeader event ''x-forwarded-for'') \<longrightarrow>
               verifier_calls (trace (snd (handler cfg e event s))) =
                 verifier_calls (trace s) @
                 [(SITEVERIFY_URL, [(''secret'', secret), (''response'', token)])])"
proof -
  have call: "verifier_calls (trace (snd (handler cfg e event s))) =
      verifier_calls (trace s) @
      [(SITEVERIFY_URL,
        [(''secret'', secret), (''response'', token)] @
        (case first_non_empty [getRequestIP event, getHeader event ''cf-connecting-ip'',
                               getHeader event ''x-forwarded-for''] of
           None \<Rightarrow> []
         | Some ip \<Rightarrow> [(''remoteip'', ip)]))]"
    using miss_calls_verifier [OF assms] siteverify_params_first_non_empty by simp
  show ?thesis
    unfolding call by (simp add: truthy_def)
qed

theorem remoteip_priority_witness:
  "redis_lookup (store world0) (now (env_up 0 resp_ok)) (cache_key ''abc'') \<noteq> Some ''valid'' \<and>
   getRequestIP req_all_ips = Some ''1.1.1.1'' \<and>
   getHeader req_all_ips ''cf-connecting-ip'' = Some ''2.2.2.2'' \<and>
   getHeader req_all_ips ''x-forwarded-for'' = Some ''3.3.3.3'' \<and>
   verifier_calls (trace (snd (handler cfg0 (env_up 0 resp_ok) req_all_ips world0))) =
     [(SITEVERIFY_URL,
       [(''secret'', ''s3cret''), (''response'', ''abc''), (''remoteip'', ''1.1.1.1'')])]"
proof -
  have h1: "TURNSTILE_SECRET_KEY cfg0 = Some ''s3cret''" and h2: "''s3cret'' \<noteq> []"
    and h3: "truthy (REDIS_URL cfg0)"
    by (simp_all add: cfg0_def truthy_def)
  have h4: "getHeader req_all_ips ''x-turnstile-token'' = Some ''abc''"
    and h5: "''abc'' \<noteq> []"
    by (simp_all add: req_all_ips_def getHeader_def)
  have lk: "redis_lookup (store world0) (now (env_up 0 resp_ok)) (cache_key ''abc'')
              \<noteq> Some ''valid''"
    by (simp add: world0_def redis_lookup_def)
  then have h6: "(redisClient world0 = None \<and> \<not> createClient_ok (env_up 0 resp_ok)) \<or>
      \<not> get_ok (env_up 0 resp_ok) \<or>
      redis_lookup (store world0) (now (env_up 0 resp_ok)) (cache_key ''abc'') \<noteq> Some ''valid''"
    by simp
  have ips: "getRequestIP req_all_ips = Some ''1.1.1.1''"
    "getHeader req_all_ips ''cf-connecting-ip'' = Some ''2.2.2.2''"
    "getHeader req_all_ips ''x-forwarded-for'' = Some ''3.3.3.3''"
    by (simp_all add: req_all_ips_def getHeader_def getRequestIP_def)
  have t: "trace world0 = []" by (simp add: world0_def)
  show ?thesis
    using lk ips remoteip_priority [OF h1 h2 h3 h4 h5 h6]
    by (simp add: t truthy_def)
qed

text \<open>
  Claim C10.  With the gate configured, a request whose \<open>x-turnstile-token\<close> header is
  present and empty is rejected like a request without the header: the outcome and the
  state are those of the same request with the header removed, which is status 401 with
  the missing-token body, and neither the cache nor the Verifier is consulted.
\<close>

theorem empty_token_rejected_as_missing:
  assumes "truthy (TURNSTILE_SECRET_KEY cfg)" and "truthy (REDIS_URL cfg)"
    and "getHeader event ''x-turnstile-token'' = Some []"
  shows "fst (handler cfg e event s) =
           Inl (H3Error \<lparr>statusCode = 401, message = ''Authentication required'',
                  data = [(''error'', ''Authentication required''),
                          (''message'', ''X-Turnstile-Token header is required'')]\<rparr>)
         \<and> handler cfg e event s =
             handler cfg e (event\<lparr>headers := (headers event)(''x-turnstile-token'' := None)\<rparr>) s
         \<and> snd (handler cfg e event s) = snd (initRedis cfg e s)
         \<and> store (snd (handler cfg e event s)) = store s
         \<and> verifier_calls (trace (snd (handler cfg e event s))) = verifier_calls (trace s)
         \<and> cache_writes (trace (snd (handler cfg e event s))) = cache_writes (trace s)"
  using assms
  by (simp add: gate_eqs getHeader_def missing_token_error_def verifier_calls_append
      cache_writes_append split: option.splits)

theorem empty_token_rejected_as_missing_witness:
  "truthy (TURNSTILE_SECRET_KEY cfg0) \<and> truthy (REDIS_URL cfg0) \<and>
   getHeader (req_token []) ''x-turnstile-token'' = Some [] \<and>
   fst (handler cfg0 (env_up 0 resp_ok) (req_token []) world0) =
     Inl (H3Error \<lparr>statusCode = 401, message = ''Authentication required'',
            data = [(''error'', ''Authentication required''),
                    (''message'', ''X-Turnstile-Token header is required'')]\<rparr>)"
proof -
  have h1: "truthy (TURNSTILE_SECRET_KEY cfg0)" and h2: "truthy (REDIS_URL cfg0)"
    by (simp_all add: cfg0_def truthy_def)
  have h3: "getHeader (req_token []) ''x-turnstile-token'' = Some []"
    by (simp add: req_token_def getHeader_def)
  show ?thesis
    using h1 h2 h3
      empty_token_rejected_as_missing [OF h1 h2 h3, of "env_up 0 resp_ok" world0]
    by blast
qed

end
